theory Spec2Isabelle
  imports Main "HOL-Library.Sublist"
begin

section \<open>The activity directory of the Mergington High School API\<close>

text \<open>
  The source is \<^verbatim>\<open>src/app.py\<close>: a module-level dictionary \<^verbatim>\<open>activities\<close> from activity
  names to activity records, and two handlers that mutate one roster of it in place.
  Each value of the dictionary has the four keys \<^verbatim>\<open>description\<close>, \<^verbatim>\<open>schedule\<close>,
  \<^verbatim>\<open>max_participants\<close> and \<^verbatim>\<open>participants\<close>, so it is a record here. The dictionary is a
  map from names to records; the handlers take the dictionary as an argument and return
  the dictionary they leave behind, next to what they return or raise. Names and emails
  are strings that the handlers only compare for equality and concatenate.
\<close>

subsection \<open>Data\<close>

record activity =
  description :: string
  schedule :: string
  max_participants :: int
  participants :: "string list"

type_synonym directory = "string \<rightharpoonup> activity"

text \<open>\<^verbatim>\<open>HTTPException(status_code=..., detail=...)\<close>, the only exception the handlers raise.\<close>

datatype http_error = HTTPException (status_code: int) (detail: string)

text \<open>The dictionary \<^verbatim>\<open>{"message": ...}\<close> that a handler returns.\<close>

record response =
  message :: string

text \<open>The dictionary literal of lines 28 to 89, entry by entry and in its order.\<close>

definition activities :: directory where
  "activities = map_of
    [(''Chess Club'',
        \<lparr>description = ''Learn strategies and compete in chess tournaments'',
         schedule = ''Fridays, 3:30 PM - 5:00 PM'',
         max_participants = 12,
         participants = [''michael@mergington.edu'', ''daniel@mergington.edu'']\<rparr>),
     (''Programming Class'',
        \<lparr>description = ''Learn programming fundamentals and build software projects'',
         schedule = ''Tuesdays and Thursdays, 3:30 PM - 4:30 PM'',
         max_participants = 20,
         participants = [''emma@mergington.edu'', ''sophia@mergington.edu'']\<rparr>),
     (''Gym Class'',
        \<lparr>description = ''Physical education and sports activities'',
         schedule = ''Mondays, Wednesdays, Fridays, 2:00 PM - 3:00 PM'',
         max_participants = 30,
         participants = [''john@mergington.edu'', ''olivia@mergington.edu'']\<rparr>),
     (''Soccer Team'',
        \<lparr>description = ''Practice soccer skills and compete with other schools'',
         schedule = ''Tuesdays, 4:00 PM - 5:30 PM'',
         max_participants = 18,
         participants = []\<rparr>),
     (''Basketball Team'',
        \<lparr>description = ''Train and play competitive basketball games'',
         schedule = ''Thursdays, 4:00 PM - 5:30 PM'',
         max_participants = 15,
         participants = []\<rparr>),
     (''Art Club'',
        \<lparr>description = ''Create paintings, drawings, and digital art'',
         schedule = ''Wednesdays, 3:30 PM - 5:00 PM'',
         max_participants = 16,
         participants = []\<rparr>),
     (''Drama Club'',
        \<lparr>description = ''Acting, improvisation, and stage performances'',
         schedule = ''Mondays, 4:00 PM - 5:30 PM'',
         max_participants = 14,
         participants = []\<rparr>),
     (''Math Club'',
        \<lparr>description = ''Solve challenging math problems and puzzles'',
         schedule = ''Fridays, 2:30 PM - 3:30 PM'',
         max_participants = 12,
         participants = []\<rparr>),
     (''Robotics Club'',
        \<lparr>description = ''Build and program robots'',
         schedule = ''Thursdays, 3:30 PM - 5:00 PM'',
         max_participants = 12,
         participants = []\<rparr>)]"

subsection \<open>Handlers\<close>

text \<open>\<^verbatim>\<open>GET /activities\<close> returns the dictionary as it is.\<close>

definition get_activities :: "directory \<Rightarrow> directory" where
  "get_activities acts = acts"

text \<open>
  \<^verbatim>\<open>POST /activities/{activity_name}/signup\<close>. The first component of the result is what
  the handler raises (\<open>Inl\<close>) or returns (\<open>Inr\<close>), the second is the dictionary
  afterwards. \<^verbatim>\<open>activity = activities[activity_name]\<close> is a reference into the dictionary,
  so the \<^verbatim>\<open>append\<close> on its roster is an update of the dictionary at \<open>activity_name\<close>.
\<close>

definition signup_for_activity ::
  "directory \<Rightarrow> string \<Rightarrow> string \<Rightarrow> (http_error + response) \<times> directory" where
  "signup_for_activity acts activity_name email =
     (case acts activity_name of
        None \<Rightarrow> (Inl (HTTPException 404 ''Activity not found''), acts)
      | Some activity \<Rightarrow>
          if email \<in> set (participants activity)
          then (Inr \<lparr>message = ''Student already signed up for this activity''\<rparr>, acts)
          else (Inr \<lparr>message = ''Signed up '' @ email @ '' for '' @ activity_name\<rparr>,
                acts(activity_name \<mapsto>
                  activity\<lparr>participants := participants activity @ [email]\<rparr>)))"

text \<open>
  \<^verbatim>\<open>DELETE /activities/{activity_name}/remove\<close>. Python's \<^verbatim>\<open>list.remove(x)\<close> deletes the
  first item equal to \<open>x\<close> and raises when there is none; the membership test before it
  excludes that case, and \<open>remove1\<close> deletes the first item equal to \<open>x\<close>.
\<close>

definition remove_participant ::
  "directory \<Rightarrow> string \<Rightarrow> string \<Rightarrow> (http_error + response) \<times> directory" where
  "remove_participant acts activity_name email =
     (case acts activity_name of
        None \<Rightarrow> (Inl (HTTPException 404 ''Activity not found''), acts)
      | Some activity \<Rightarrow>
          if email \<notin> set (participants activity)
          then (Inl (HTTPException 404 ''Participant not found in this activity''), acts)
          else (Inr \<lparr>message = ''Removed '' @ email @ '' from '' @ activity_name\<rparr>,
                acts(activity_name \<mapsto>
                  activity\<lparr>participants := remove1 email (participants activity)\<rparr>)))"

subsection \<open>Sequences of requests\<close>

text \<open>
  The process serves one request after the other on the same dictionary. A request that
  raises leaves the dictionary as the handler left it, and the next request runs on that.
\<close>

datatype request = Signup string string | Remove string string

fun handle :: "directory \<Rightarrow> request \<Rightarrow> (http_error + response) \<times> directory" where
  "handle acts (Signup activity_name email) = signup_for_activity acts activity_name email"
| "handle acts (Remove activity_name email) = remove_participant acts activity_name email"

fun run :: "directory \<Rightarrow> request list \<Rightarrow> directory" where
  "run acts [] = acts"
| "run acts (r # rs) = run (snd (handle acts r)) rs"

text \<open>No roster of the dictionary holds an email twice.\<close>

definition no_duplicates :: "directory \<Rightarrow> bool" where
  "no_duplicates acts =
     (\<forall>activity_name activity.
        acts activity_name = Some activity \<longrightarrow> distinct (participants activity))"

section \<open>Properties\<close>

subsection \<open>Seed entries\<close>

lemma activities_Chess_Club:
  "activities ''Chess Club'' = Some
     \<lparr>description = ''Learn strategies and compete in chess tournaments'',
      schedule = ''Fridays, 3:30 PM - 5:00 PM'',
      max_participants = 12,
      participants = [''michael@mergington.edu'', ''daniel@mergington.edu'']\<rparr>"
  by (simp add: activities_def)

lemma activities_Nonexistent_Club: "activities ''Nonexistent Club'' = None"
  by (simp add: activities_def)

subsection \<open>Unknown activities\<close>

text \<open>
  C5. When \<open>activity_name\<close> is not a key of the dictionary, both
  \<open>signup_for_activity\<close> and \<open>remove_participant\<close> raise the HTTP exception with
  status 404 and detail "Activity not found", for every email, and the dictionary is
  the one they were called on.
\<close>

theorem activity_not_found:
  assumes "acts activity_name = None"
  shows "signup_for_activity acts activity_name email
           = (Inl (HTTPException 404 ''Activity not found''), acts)
       \<and> remove_participant acts activity_name email
           = (Inl (HTTPException 404 ''Activity not found''), acts)"
  using assms by (simp add: signup_for_activity_def remove_participant_def)

theorem activity_not_found_witness:
  "activities ''Nonexistent Club'' = None
   \<and> signup_for_activity activities ''Nonexistent Club'' ''test@mergington.edu''
       = (Inl (HTTPException 404 ''Activity not found''), activities)
   \<and> remove_participant activities ''Nonexistent Club'' ''test@mergington.edu''
       = (Inl (HTTPException 404 ''Activity not found''), activities)"
  using activity_not_found [of activities "''Nonexistent Club''" "''test@mergington.edu''"]
    activities_Nonexistent_Club
  by simp

subsection \<open>Signing up\<close>

lemma signup_present:
  assumes "acts activity_name = Some activity"
    and "email \<in> set (participants activity)"
  shows "signup_for_activity acts activity_name email
           = (Inr \<lparr>message = ''Student already signed up for this activity''\<rparr>, acts)"
  using assms by (simp add: signup_for_activity_def)

lemma signup_absent:
  assumes "acts activity_name = Some activity"
    and "email \<notin> set (participants activity)"
  shows "signup_for_activity acts activity_name email
           = (Inr \<lparr>message = ''Signed up '' @ email @ '' for '' @ activity_name\<rparr>,
              acts(activity_name \<mapsto>
                activity\<lparr>participants := participants activity @ [email]\<rparr>))"
  using assms by (simp add: signup_for_activity_def)

text \<open>A second identical signup never changes the dictionary the first one left.\<close>

lemma signup_twice:
  "snd (signup_for_activity (snd (signup_for_activity acts activity_name email))
          activity_name email)
     = snd (signup_for_activity acts activity_name email)"
proof (cases "acts activity_name")
  case None
  then show ?thesis by (simp add: signup_for_activity_def)
next
  case (Some activity)
  show ?thesis
  proof (cases "email \<in> set (participants activity)")
    case True
    with Some show ?thesis by (simp add: signup_present)
  next
    case False
    let ?acts' = "acts(activity_name \<mapsto>
                    activity\<lparr>participants := participants activity @ [email]\<rparr>)"
    have "signup_for_activity ?acts' activity_name email
            = (Inr \<lparr>message = ''Student already signed up for this activity''\<rparr>, ?acts')"
      by (rule signup_present [where activity =
            "activity\<lparr>participants := participants activity @ [email]\<rparr>"]) simp_all
    with Some False show ?thesis by (simp add: signup_absent)
  qed
qed

text \<open>
  C1. For an activity of the dictionary and an email already on its roster,
  \<open>signup_for_activity\<close> returns (it does not raise) the message that the student is
  already signed up and leaves the dictionary as it was, so a second identical call
  returns the same and leaves the same dictionary as the first.
\<close>

theorem signup_idempotent:
  assumes "acts activity_name = Some activity"
    and "email \<in> set (participants activity)"
  shows "signup_for_activity acts activity_name email
           = (Inr \<lparr>message = ''Student already signed up for this activity''\<rparr>, acts)
       \<and> signup_for_activity (snd (signup_for_activity acts activity_name email))
             activity_name email
           = signup_for_activity acts activity_name email"
  using assms by (simp add: signup_present)

theorem signup_idempotent_witness:
  "activities ''Chess Club'' = Some
     \<lparr>description = ''Learn strategies and compete in chess tournaments'',
      schedule = ''Fridays, 3:30 PM - 5:00 PM'',
      max_participants = 12,
      participants = [''michael@mergington.edu'', ''daniel@mergington.edu'']\<rparr>
   \<and> ''daniel@mergington.edu'' \<in> set [''michael@mergington.edu'', ''daniel@mergington.edu'']
   \<and> signup_for_activity activities ''Chess Club'' ''daniel@mergington.edu''
       = (Inr \<lparr>message = ''Student already signed up for this activity''\<rparr>, activities)
   \<and> signup_for_activity
         (snd (signup_for_activity activities ''Chess Club'' ''daniel@mergington.edu''))
         ''Chess Club'' ''daniel@mergington.edu''
       = signup_for_activity activities ''Chess Club'' ''daniel@mergington.edu''"
  using signup_idempotent [of activities "''Chess Club''" _ "''daniel@mergington.edu''",
      OF activities_Chess_Club]
    activities_Chess_Club
  by simp

text \<open>
  C2. For an activity of the dictionary and an email not on its roster,
  \<open>signup_for_activity\<close> returns the message "Signed up <email> for <activity_name>",
  which contains both strings, and puts the email at the end of that roster, behind the
  earlier entries in their order: the roster that \<open>get_activities\<close> then shows holds the
  email exactly once and is one longer than before.
\<close>

theorem signup_appends:
  assumes "acts activity_name = Some activity"
    and "email \<notin> set (participants activity)"
  shows "signup_for_activity acts activity_name email
           = (Inr \<lparr>message = ''Signed up '' @ email @ '' for '' @ activity_name\<rparr>,
              acts(activity_name \<mapsto>
                activity\<lparr>participants := participants activity @ [email]\<rparr>))
       \<and> (\<exists>r activity'.
            fst (signup_for_activity acts activity_name email) = Inr r
          \<and> sublist email (message r) \<and> sublist activity_name (message r)
          \<and> get_activities (snd (signup_for_activity acts activity_name email)) activity_name
              = Some activity'
          \<and> participants activity' = participants activity @ [email]
          \<and> count_list (participants activity') email = 1
          \<and> length (participants activity') = length (participants activity) + 1)"
proof -
  have "sublist email (''Signed up '' @ email @ '' for '' @ activity_name)"
    unfolding sublist_def by blast
  moreover have "sublist activity_name (''Signed up '' @ email @ '' for '' @ activity_name)"
    by (metis append.assoc sublist_appendI append_Nil2)
  moreover have "count_list (participants activity @ [email]) email = 1"
    using assms(2) by (simp add: count_list_0_iff)
  ultimately show ?thesis
    using assms by (simp add: signup_absent get_activities_def)
qed

theorem signup_appends_witness:
  "activities ''Chess Club'' = Some
     \<lparr>description = ''Learn strategies and compete in chess tournaments'',
      schedule = ''Fridays, 3:30 PM - 5:00 PM'',
      max_participants = 12,
      participants = [''michael@mergington.edu'', ''daniel@mergington.edu'']\<rparr>
   \<and> ''new@x.edu'' \<notin> set [''michael@mergington.edu'', ''daniel@mergington.edu'']
   \<and> signup_for_activity activities ''Chess Club'' ''new@x.edu''
       = (Inr \<lparr>message = ''Signed up new@x.edu for Chess Club''\<rparr>,
          activities(''Chess Club'' \<mapsto>
            \<lparr>description = ''Learn strategies and compete in chess tournaments'',
             schedule = ''Fridays, 3:30 PM - 5:00 PM'',
             max_participants = 12,
             participants = [''michael@mergington.edu'', ''daniel@mergington.edu'',
                             ''new@x.edu'']\<rparr>))"
  using signup_appends [of activities "''Chess Club''" _ "''new@x.edu''",
      OF activities_Chess_Club]
    activities_Chess_Club
  by simp

subsection \<open>Removing\<close>

lemma remove_present:
  assumes "acts activity_name = Some activity"
    and "email \<in> set (participants activity)"
  shows "remove_participant acts activity_name email
           = (Inr \<lparr>message = ''Removed '' @ email @ '' from '' @ activity_name\<rparr>,
              acts(activity_name \<mapsto>
                activity\<lparr>participants := remove1 email (participants activity)\<rparr>))"
  using assms by (simp add: remove_participant_def)

lemma remove_absent:
  assumes "acts activity_name = Some activity"
    and "email \<notin> set (participants activity)"
  shows "remove_participant acts activity_name email
           = (Inl (HTTPException 404 ''Participant not found in this activity''), acts)"
  using assms by (simp add: remove_participant_def)

text \<open>
  C6. For an activity of the dictionary and an email not on its roster,
  \<open>remove_participant\<close> raises the HTTP exception with status 404 and detail
  "Participant not found in this activity", and the whole dictionary is the one it was
  called on.
\<close>

theorem participant_not_found:
  assumes "acts activity_name = Some activity"
    and "email \<notin> set (participants activity)"
  shows "remove_participant acts activity_name email
           = (Inl (HTTPException 404 ''Participant not found in this activity''), acts)"
  using assms by (rule remove_absent)

theorem participant_not_found_witness:
  "activities ''Chess Club'' = Some
     \<lparr>description = ''Learn strategies and compete in chess tournaments'',
      schedule = ''Fridays, 3:30 PM - 5:00 PM'',
      max_participants = 12,
      participants = [''michael@mergington.edu'', ''daniel@mergington.edu'']\<rparr>
   \<and> ''never-signed-up@x.edu''
       \<notin> set [''michael@mergington.edu'', ''daniel@mergington.edu'']
   \<and> remove_participant activities ''Chess Club'' ''never-signed-up@x.edu''
       = (Inl (HTTPException 404 ''Participant not found in this activity''), activities)"
  using participant_not_found [of activities "''Chess Club''" _ "''never-signed-up@x.edu''",
      OF activities_Chess_Club]
    activities_Chess_Club
  by simp

text \<open>
  C8. For an activity of the dictionary and an email on its roster,
  \<open>remove_participant\<close> returns the message "Removed <email> from <activity_name>",
  which contains both strings, and deletes from that roster the first entry equal to the
  email: the entries before it, none of which is the email, and the entries after it stay,
  in their order.
\<close>

theorem remove_first_occurrence:
  assumes "acts activity_name = Some activity"
    and "email \<in> set (participants activity)"
  shows "\<exists>before after.
           participants activity = before @ email # after
         \<and> email \<notin> set before
         \<and> remove_participant acts activity_name email
             = (Inr \<lparr>message = ''Removed '' @ email @ '' from '' @ activity_name\<rparr>,
                acts(activity_name \<mapsto> activity\<lparr>participants := before @ after\<rparr>))
         \<and> sublist email (''Removed '' @ email @ '' from '' @ activity_name)
         \<and> sublist activity_name (''Removed '' @ email @ '' from '' @ activity_name)"
proof -
  from assms(2) obtain before after
    where split: "participants activity = before @ email # after" "email \<notin> set before"
    by (auto dest: split_list_first)
  then have "remove1 email (participants activity) = before @ after"
    by (simp add: remove1_append)
  with assms have "remove_participant acts activity_name email
      = (Inr \<lparr>message = ''Removed '' @ email @ '' from '' @ activity_name\<rparr>,
         acts(activity_name \<mapsto> activity\<lparr>participants := before @ after\<rparr>))"
    by (simp add: remove_present)
  moreover have "sublist email (''Removed '' @ email @ '' from '' @ activity_name)"
    unfolding sublist_def by blast
  moreover have "sublist activity_name (''Removed '' @ email @ '' from '' @ activity_name)"
    by (metis append.assoc sublist_appendI append_Nil2)
  ultimately show ?thesis
    using split by blast
qed

theorem remove_first_occurrence_witness:
  "activities ''Chess Club'' = Some
     \<lparr>description = ''Learn strategies and compete in chess tournaments'',
      schedule = ''Fridays, 3:30 PM - 5:00 PM'',
      max_participants = 12,
      participants = [''michael@mergington.edu'', ''daniel@mergington.edu'']\<rparr>
   \<and> ''daniel@mergington.edu'' \<in> set [''michael@mergington.edu'', ''daniel@mergington.edu'']
   \<and> remove_participant activities ''Chess Club'' ''daniel@mergington.edu''
       = (Inr \<lparr>message = ''Removed daniel@mergington.edu from Chess Club''\<rparr>,
          activities(''Chess Club'' \<mapsto>
            \<lparr>description = ''Learn strategies and compete in chess tournaments'',
             schedule = ''Fridays, 3:30 PM - 5:00 PM'',
             max_participants = 12,
             participants = [''michael@mergington.edu'']\<rparr>))"
proof -
  have "''daniel@mergington.edu'' \<in> set [''michael@mergington.edu'', ''daniel@mergington.edu'']"
    by simp
  with remove_first_occurrence [of activities "''Chess Club''" _ "''daniel@mergington.edu''",
      OF activities_Chess_Club]
  obtain before after
    where "[''michael@mergington.edu'', ''daniel@mergington.edu'']
             = before @ ''daniel@mergington.edu'' # after"
      and "''daniel@mergington.edu'' \<notin> set before"
      and r: "remove_participant activities ''Chess Club'' ''daniel@mergington.edu''
            = (Inr \<lparr>message = ''Removed '' @ ''daniel@mergington.edu'' @ '' from ''
                                 @ ''Chess Club''\<rparr>,
               activities(''Chess Club'' \<mapsto>
                 \<lparr>description = ''Learn strategies and compete in chess tournaments'',
                  schedule = ''Fridays, 3:30 PM - 5:00 PM'',
                  max_participants = 12,
                  participants = before @ after\<rparr>))"
    by auto
  then have "before = [''michael@mergington.edu''] \<and> after = []"
    by (auto simp: Cons_eq_append_conv)
  with r activities_Chess_Club show ?thesis by simp
qed

subsection \<open>Signing up and removing again\<close>

text \<open>
  C3, as stated, fails for an email that is already on the roster: the signup changes
  nothing and the removal deletes the earlier entry, so the roster is not the one before
  the signup. In the seed, "Chess Club" holds michael@mergington.edu.
\<close>

theorem round_trip_counterexample:
  "map_option participants
     (snd (remove_participant
             (snd (signup_for_activity activities ''Chess Club'' ''michael@mergington.edu''))
             ''Chess Club'' ''michael@mergington.edu'') ''Chess Club'')
     = Some [''daniel@mergington.edu'']
   \<and> map_option participants (activities ''Chess Club'')
     = Some [''michael@mergington.edu'', ''daniel@mergington.edu'']
   \<and> map_option participants
     (snd (remove_participant
             (snd (signup_for_activity activities ''Chess Club'' ''michael@mergington.edu''))
             ''Chess Club'' ''michael@mergington.edu'') ''Chess Club'')
     \<noteq> map_option participants (activities ''Chess Club'')"
  by (simp add: signup_for_activity_def remove_participant_def activities_Chess_Club)

text \<open>
  C3, amended. For an activity of the dictionary and an email not on its roster, the
  signup followed by the removal both return and leave the dictionary, and so the
  roster, as it was before the signup. For every email that the roster holds at most
  once (none of them, or one on a roster without duplicates), a further removal after
  the two calls raises the HTTP exception with status 404 and detail
  "Participant not found in this activity" and changes nothing.
\<close>

theorem signup_remove_round_trip:
  assumes "acts activity_name = Some activity"
  shows "(email \<notin> set (participants activity) \<longrightarrow>
            remove_participant (snd (signup_for_activity acts activity_name email))
                activity_name email
              = (Inr \<lparr>message = ''Removed '' @ email @ '' from '' @ activity_name\<rparr>, acts))
       \<and> (count_list (participants activity) email \<le> 1 \<longrightarrow>
            remove_participant
                (snd (remove_participant (snd (signup_for_activity acts activity_name email))
                        activity_name email))
                activity_name email
              = (Inl (HTTPException 404 ''Participant not found in this activity''),
                 snd (remove_participant (snd (signup_for_activity acts activity_name email))
                        activity_name email)))"
proof (cases "email \<in> set (participants activity)")
  case False
  let ?signed = "activity\<lparr>participants := participants activity @ [email]\<rparr>"
  have signed: "snd (signup_for_activity acts activity_name email)
                  = acts(activity_name \<mapsto> ?signed)"
    using assms False by (simp add: signup_absent)
  have "remove1 email (participants activity @ [email]) = participants activity"
    using False by (simp add: remove1_append)
  then have removed: "remove_participant (acts(activity_name \<mapsto> ?signed)) activity_name email
      = (Inr \<lparr>message = ''Removed '' @ email @ '' from '' @ activity_name\<rparr>, acts)"
    using assms
    by (simp add: remove_present [where activity = ?signed] map_upd_triv)
  have "remove_participant acts activity_name email
      = (Inl (HTTPException 404 ''Participant not found in this activity''), acts)"
    using assms False by (rule remove_absent)
  with signed removed show ?thesis by simp
next
  case True
  let ?removed = "activity\<lparr>participants := remove1 email (participants activity)\<rparr>"
  have signed: "snd (signup_for_activity acts activity_name email) = acts"
    using assms True by (simp add: signup_present)
  have removed: "snd (remove_participant acts activity_name email)
                   = acts(activity_name \<mapsto> ?removed)"
    using assms True by (simp add: remove_present)
  have gone: "count_list (participants activity) email \<le> 1
                \<Longrightarrow> email \<notin> set (participants ?removed)"
  proof -
    assume once: "count_list (participants activity) email \<le> 1"
    from True obtain before after
      where split: "participants activity = before @ email # after" "email \<notin> set before"
      by (auto dest: split_list_first)
    with once have "count_list after email = 0" by simp
    then have "email \<notin> set after" by (simp add: count_list_0_iff)
    with split show ?thesis by (simp add: remove1_append)
  qed
  have "count_list (participants activity) email \<le> 1 \<Longrightarrow>
        remove_participant (acts(activity_name \<mapsto> ?removed)) activity_name email
          = (Inl (HTTPException 404 ''Participant not found in this activity''),
             acts(activity_name \<mapsto> ?removed))"
    using gone by (intro remove_absent [where activity = ?removed]) simp_all
  with True signed removed show ?thesis by simp
qed

theorem signup_remove_round_trip_witness:
  "activities ''Chess Club'' = Some
     \<lparr>description = ''Learn strategies and compete in chess tournaments'',
      schedule = ''Fridays, 3:30 PM - 5:00 PM'',
      max_participants = 12,
      participants = [''michael@mergington.edu'', ''daniel@mergington.edu'']\<rparr>
   \<and> ''new@x.edu'' \<notin> set [''michael@mergington.edu'', ''daniel@mergington.edu'']
   \<and> count_list [''michael@mergington.edu'', ''daniel@mergington.edu''] ''new@x.edu'' \<le> 1
   \<and> remove_participant
         (snd (signup_for_activity activities ''Chess Club'' ''new@x.edu''))
         ''Chess Club'' ''new@x.edu''
       = (Inr \<lparr>message = ''Removed new@x.edu from Chess Club''\<rparr>, activities)
   \<and> remove_participant
         (snd (remove_participant
                 (snd (signup_for_activity activities ''Chess Club'' ''new@x.edu''))
                 ''Chess Club'' ''new@x.edu''))
         ''Chess Club'' ''new@x.edu''
       = (Inl (HTTPException 404 ''Participant not found in this activity''), activities)"
proof -
  note round_trip = signup_remove_round_trip [of activities "''Chess Club''" _ "''new@x.edu''",
      OF activities_Chess_Club]
  from round_trip [THEN conjunct1] have restored:
    "remove_participant (snd (signup_for_activity activities ''Chess Club'' ''new@x.edu''))
         ''Chess Club'' ''new@x.edu''
       = (Inr \<lparr>message = ''Removed new@x.edu from Chess Club''\<rparr>, activities)"
    by simp
  from round_trip [THEN conjunct2] have
    "remove_participant
         (snd (remove_participant
                 (snd (signup_for_activity activities ''Chess Club'' ''new@x.edu''))
                 ''Chess Club'' ''new@x.edu''))
         ''Chess Club'' ''new@x.edu''
       = (Inl (HTTPException 404 ''Participant not found in this activity''),
          snd (remove_participant
                 (snd (signup_for_activity activities ''Chess Club'' ''new@x.edu''))
                 ''Chess Club'' ''new@x.edu''))"
    by simp
  with restored activities_Chess_Club show ?thesis by simp
qed

subsection \<open>Rosters without duplicates\<close>

lemma no_duplicates_activities: "no_duplicates activities"
  unfolding no_duplicates_def
proof (intro allI impI)
  fix activity_name activity
  assume "activities activity_name = Some activity"
  note entry = map_of_SomeD [OF this [unfolded activities_def]]
  from entry show "distinct (participants activity)"
    by (elim set_ConsD [elim_format] disjE) simp_all
qed

lemma no_duplicates_signup:
  assumes "no_duplicates acts"
  shows "no_duplicates (snd (signup_for_activity acts activity_name email))"
  using assms
  by (auto simp: no_duplicates_def signup_for_activity_def split: option.splits if_splits)

lemma no_duplicates_remove:
  assumes "no_duplicates acts"
  shows "no_duplicates (snd (remove_participant acts activity_name email))"
  using assms
  by (auto simp: no_duplicates_def remove_participant_def split: option.splits if_splits)

lemma no_duplicates_handle:
  assumes "no_duplicates acts"
  shows "no_duplicates (snd (handle acts r))"
  using assms by (cases r) (simp_all add: no_duplicates_signup no_duplicates_remove)

lemma no_duplicates_run:
  assumes "no_duplicates acts"
  shows "no_duplicates (run acts rs)"
  using assms by (induction rs arbitrary: acts) (simp_all add: no_duplicates_handle)

text \<open>
  C4. After every sequence of signup and remove requests served from the seed
  dictionary, no roster of the dictionary holds an email twice. The sequence may hold
  requests that raise: they leave the dictionary as it was, so the sequences of
  successful requests are among those covered.
\<close>

theorem no_duplicate_participants:
  assumes "run activities requests activity_name = Some activity"
  shows "distinct (participants activity)"
proof -
  have "no_duplicates (run activities requests)"
    using no_duplicates_activities by (rule no_duplicates_run)
  with assms show ?thesis
    unfolding no_duplicates_def by blast
qed

theorem no_duplicate_participants_witness:
  "run activities
       [Signup ''Chess Club'' ''new@x.edu'', Signup ''Chess Club'' ''new@x.edu'',
        Remove ''Chess Club'' ''michael@mergington.edu'',
        Signup ''Chess Club'' ''daniel@mergington.edu'']
       ''Chess Club''
     = Some \<lparr>description = ''Learn strategies and compete in chess tournaments'',
             schedule = ''Fridays, 3:30 PM - 5:00 PM'',
             max_participants = 12,
             participants = [''daniel@mergington.edu'', ''new@x.edu'']\<rparr>
   \<and> distinct [''daniel@mergington.edu'', ''new@x.edu'']"
proof -
  have served: "run activities
       [Signup ''Chess Club'' ''new@x.edu'', Signup ''Chess Club'' ''new@x.edu'',
        Remove ''Chess Club'' ''michael@mergington.edu'',
        Signup ''Chess Club'' ''daniel@mergington.edu'']
       ''Chess Club''
     = Some \<lparr>description = ''Learn strategies and compete in chess tournaments'',
             schedule = ''Fridays, 3:30 PM - 5:00 PM'',
             max_participants = 12,
             participants = [''daniel@mergington.edu'', ''new@x.edu'']\<rparr>"
    by (simp add: signup_for_activity_def remove_participant_def activities_Chess_Club)
  from no_duplicate_participants [OF served] served show ?thesis by simp
qed

subsection \<open>Capacity\<close>

lemma activities_Math_Club:
  "activities ''Math Club'' = Some
     \<lparr>description = ''Solve challenging math problems and puzzles'',
      schedule = ''Fridays, 2:30 PM - 3:30 PM'',
      max_participants = 12,
      participants = []\<rparr>"
  by (simp add: activities_def)

text \<open>
  C7. For an activity of the dictionary whose roster is already as long as its
  \<open>max_participants\<close> or longer, and an email not on the roster,
  \<open>signup_for_activity\<close> returns the success message and appends the email. The
  handler does not read \<open>max_participants\<close>: whatever value the field is given, the
  call returns the same message and the same roster.
\<close>

theorem capacity_not_enforced:
  assumes "acts activity_name = Some activity"
    and "email \<notin> set (participants activity)"
    and "max_participants activity \<le> int (length (participants activity))"
  shows "signup_for_activity acts activity_name email
           = (Inr \<lparr>message = ''Signed up '' @ email @ '' for '' @ activity_name\<rparr>,
              acts(activity_name \<mapsto>
                activity\<lparr>participants := participants activity @ [email]\<rparr>))
       \<and> (\<forall>capacity.
            signup_for_activity
                (acts(activity_name \<mapsto> activity\<lparr>max_participants := capacity\<rparr>))
                activity_name email
              = (Inr \<lparr>message = ''Signed up '' @ email @ '' for '' @ activity_name\<rparr>,
                 acts(activity_name \<mapsto>
                   activity\<lparr>max_participants := capacity,
                            participants := participants activity @ [email]\<rparr>)))"
  using assms(1,2) by (simp add: signup_for_activity_def)

theorem capacity_not_enforced_witness:
  "run activities
       [Signup ''Math Club'' ''s1@x.edu'',
        Signup ''Math Club'' ''s2@x.edu'',
        Signup ''Math Club'' ''s3@x.edu'',
        Signup ''Math Club'' ''s4@x.edu'',
        Signup ''Math Club'' ''s5@x.edu'',
        Signup ''Math Club'' ''s6@x.edu'',
        Signup ''Math Club'' ''s7@x.edu'',
        Signup ''Math Club'' ''s8@x.edu'',
        Signup ''Math Club'' ''s9@x.edu'',
        Signup ''Math Club'' ''s10@x.edu'',
        Signup ''Math Club'' ''s11@x.edu'',
        Signup ''Math Club'' ''s12@x.edu''] ''Math Club''
     = Some \<lparr>description = ''Solve challenging math problems and puzzles'',
             schedule = ''Fridays, 2:30 PM - 3:30 PM'',
             max_participants = 12,
             participants =
                 [''s1@x.edu'', ''s2@x.edu'', ''s3@x.edu'',
                  ''s4@x.edu'', ''s5@x.edu'', ''s6@x.edu'',
                  ''s7@x.edu'', ''s8@x.edu'', ''s9@x.edu'',
                  ''s10@x.edu'', ''s11@x.edu'', ''s12@x.edu'']\<rparr>
   \<and> ''s13@x.edu'' \<notin> set
                 [''s1@x.edu'', ''s2@x.edu'', ''s3@x.edu'',
                  ''s4@x.edu'', ''s5@x.edu'', ''s6@x.edu'',
                  ''s7@x.edu'', ''s8@x.edu'', ''s9@x.edu'',
                  ''s10@x.edu'', ''s11@x.edu'', ''s12@x.edu'']
   \<and> (12 :: int) \<le> int (length
                 [''s1@x.edu'', ''s2@x.edu'', ''s3@x.edu'',
                  ''s4@x.edu'', ''s5@x.edu'', ''s6@x.edu'',
                  ''s7@x.edu'', ''s8@x.edu'', ''s9@x.edu'',
                  ''s10@x.edu'', ''s11@x.edu'', ''s12@x.edu''])
   \<and> signup_for_activity
       (run activities
       [Signup ''Math Club'' ''s1@x.edu'',
        Signup ''Math Club'' ''s2@x.edu'',
        Signup ''Math Club'' ''s3@x.edu'',
        Signup ''Math Club'' ''s4@x.edu'',
        Signup ''Math Club'' ''s5@x.edu'',
        Signup ''Math Club'' ''s6@x.edu'',
        Signup ''Math Club'' ''s7@x.edu'',
        Signup ''Math Club'' ''s8@x.edu'',
        Signup ''Math Club'' ''s9@x.edu'',
        Signup ''Math Club'' ''s10@x.edu'',
        Signup ''Math Club'' ''s11@x.edu'',
        Signup ''Math Club'' ''s12@x.edu'']) ''Math Club'' ''s13@x.edu''
     = (Inr \<lparr>message = ''Signed up s13@x.edu for Math Club''\<rparr>,
        (run activities
       [Signup ''Math Club'' ''s1@x.edu'',
        Signup ''Math Club'' ''s2@x.edu'',
        Signup ''Math Club'' ''s3@x.edu'',
        Signup ''Math Club'' ''s4@x.edu'',
        Signup ''Math Club'' ''s5@x.edu'',
        Signup ''Math Club'' ''s6@x.edu'',
        Signup ''Math Club'' ''s7@x.edu'',
        Signup ''Math Club'' ''s8@x.edu'',
        Signup ''Math Club'' ''s9@x.edu'',
        Signup ''Math Club'' ''s10@x.edu'',
        Signup ''Math Club'' ''s11@x.edu'',
        Signup ''Math Club'' ''s12@x.edu''])(''Math Club'' \<mapsto>
          \<lparr>description = ''Solve challenging math problems and puzzles'',
           schedule = ''Fridays, 2:30 PM - 3:30 PM'',
           max_participants = 12,
           participants =
                 [''s1@x.edu'', ''s2@x.edu'', ''s3@x.edu'',
                  ''s4@x.edu'', ''s5@x.edu'', ''s6@x.edu'',
                  ''s7@x.edu'', ''s8@x.edu'', ''s9@x.edu'',
                  ''s10@x.edu'', ''s11@x.edu'', ''s12@x.edu'',
                  ''s13@x.edu'']\<rparr>))"
proof -
  let ?full = "run activities
         [Signup ''Math Club'' ''s1@x.edu'',
          Signup ''Math Club'' ''s2@x.edu'',
          Signup ''Math Club'' ''s3@x.edu'',
          Signup ''Math Club'' ''s4@x.edu'',
          Signup ''Math Club'' ''s5@x.edu'',
          Signup ''Math Club'' ''s6@x.edu'',
          Signup ''Math Club'' ''s7@x.edu'',
          Signup ''Math Club'' ''s8@x.edu'',
          Signup ''Math Club'' ''s9@x.edu'',
          Signup ''Math Club'' ''s10@x.edu'',
          Signup ''Math Club'' ''s11@x.edu'',
          Signup ''Math Club'' ''s12@x.edu'']"
  have full: "?full ''Math Club''
     = Some \<lparr>description = ''Solve challenging math problems and puzzles'',
             schedule = ''Fridays, 2:30 PM - 3:30 PM'',
             max_participants = 12,
             participants =
                 [''s1@x.edu'', ''s2@x.edu'', ''s3@x.edu'', ''s4@x.edu'', ''s5@x.edu'',
                  ''s6@x.edu'', ''s7@x.edu'', ''s8@x.edu'', ''s9@x.edu'', ''s10@x.edu'',
                  ''s11@x.edu'', ''s12@x.edu'']\<rparr>"
    by (simp add: signup_for_activity_def activities_Math_Club)
  from capacity_not_enforced [of ?full "''Math Club''" _ "''s13@x.edu''", OF full,
      THEN conjunct1] full
  show ?thesis
    by simp
qed

subsection \<open>What a call leaves alone\<close>

lemma signup_frame:
  "dom (snd (signup_for_activity acts activity_name email)) = dom acts
   \<and> (\<forall>other. other \<noteq> activity_name \<longrightarrow>
          snd (signup_for_activity acts activity_name email) other = acts other)
   \<and> (\<forall>activity. acts activity_name = Some activity \<longrightarrow>
          (\<exists>roster. snd (signup_for_activity acts activity_name email) activity_name
                      = Some (activity\<lparr>participants := roster\<rparr>)))"
proof (cases "acts activity_name")
  case None
  then show ?thesis by (simp add: signup_for_activity_def)
next
  case (Some activity)
  then have "dom (snd (signup_for_activity acts activity_name email)) = dom acts"
    by (auto simp: signup_for_activity_def)
  moreover have "\<exists>roster. snd (signup_for_activity acts activity_name email) activity_name
                            = Some (activity\<lparr>participants := roster\<rparr>)"
  proof (cases "email \<in> set (participants activity)")
    case True
    with Some have "snd (signup_for_activity acts activity_name email) activity_name
                      = Some (activity\<lparr>participants := participants activity\<rparr>)"
      by (simp add: signup_present)
    then show ?thesis ..
  next
    case False
    with Some have "snd (signup_for_activity acts activity_name email) activity_name
                      = Some (activity\<lparr>participants := participants activity @ [email]\<rparr>)"
      by (simp add: signup_absent)
    then show ?thesis ..
  qed
  ultimately show ?thesis
    using Some by (simp add: signup_for_activity_def)
qed

lemma remove_frame:
  "dom (snd (remove_participant acts activity_name email)) = dom acts
   \<and> (\<forall>other. other \<noteq> activity_name \<longrightarrow>
          snd (remove_participant acts activity_name email) other = acts other)
   \<and> (\<forall>activity. acts activity_name = Some activity \<longrightarrow>
          (\<exists>roster. snd (remove_participant acts activity_name email) activity_name
                      = Some (activity\<lparr>participants := roster\<rparr>)))"
proof (cases "acts activity_name")
  case None
  then show ?thesis by (simp add: remove_participant_def)
next
  case (Some activity)
  then have "dom (snd (remove_participant acts activity_name email)) = dom acts"
    by (auto simp: remove_participant_def)
  moreover have "\<exists>roster. snd (remove_participant acts activity_name email) activity_name
                            = Some (activity\<lparr>participants := roster\<rparr>)"
  proof (cases "email \<in> set (participants activity)")
    case True
    with Some have "snd (remove_participant acts activity_name email) activity_name
        = Some (activity\<lparr>participants := remove1 email (participants activity)\<rparr>)"
      by (simp add: remove_present)
    then show ?thesis ..
  next
    case False
    with Some have "snd (remove_participant acts activity_name email) activity_name
                      = Some (activity\<lparr>participants := participants activity\<rparr>)"
      by (simp add: remove_absent)
    then show ?thesis ..
  qed
  ultimately show ?thesis
    using Some by (simp add: remove_participant_def)
qed

text \<open>
  C9. Whether it returns or raises, a call of \<open>signup_for_activity\<close> or of
  \<open>remove_participant\<close> leaves the keys of the dictionary as they were, leaves every
  activity other than the named one as it was, and leaves the description, the
  schedule and the capacity of the named activity as they were: at most the roster of
  the named activity differs.
\<close>

theorem frame_condition:
  assumes "acts' = snd (signup_for_activity acts activity_name email)
         \<or> acts' = snd (remove_participant acts activity_name email)"
  shows "dom acts' = dom acts
       \<and> (\<forall>other. other \<noteq> activity_name \<longrightarrow> acts' other = acts other)
       \<and> (\<forall>activity. acts activity_name = Some activity \<longrightarrow>
            (\<exists>activity'. acts' activity_name = Some activity'
               \<and> description activity' = description activity
               \<and> schedule activity' = schedule activity
               \<and> max_participants activity' = max_participants activity))"
proof -
  have "dom acts' = dom acts
       \<and> (\<forall>other. other \<noteq> activity_name \<longrightarrow> acts' other = acts other)
       \<and> (\<forall>activity. acts activity_name = Some activity \<longrightarrow>
            (\<exists>roster. acts' activity_name = Some (activity\<lparr>participants := roster\<rparr>)))"
    using assms signup_frame [of acts activity_name email]
      remove_frame [of acts activity_name email]
    by (elim disjE) simp_all
  then show ?thesis by fastforce
qed

theorem frame_condition_witness:
  "dom (snd (signup_for_activity activities ''Chess Club'' ''new@x.edu'')) = dom activities
   \<and> snd (signup_for_activity activities ''Chess Club'' ''new@x.edu'') ''Gym Class''
       = activities ''Gym Class''
   \<and> (\<exists>activity'.
         snd (signup_for_activity activities ''Chess Club'' ''new@x.edu'') ''Chess Club''
           = Some activity'
       \<and> description activity' = ''Learn strategies and compete in chess tournaments''
       \<and> schedule activity' = ''Fridays, 3:30 PM - 5:00 PM''
       \<and> max_participants activity' = 12)"
proof -
  note frame = frame_condition
    [of "snd (signup_for_activity activities ''Chess Club'' ''new@x.edu'')"
        activities "''Chess Club''" "''new@x.edu''"]
  have "''Gym Class'' \<noteq> ''Chess Club''" by simp
  with frame activities_Chess_Club show ?thesis by fastforce
qed

text \<open>
  C10. For an activity of the dictionary and an email already on its roster, the
  response of \<open>signup_for_activity\<close> is the message
  "Student already signed up for this activity": one fixed string, the same for every
  such dictionary, activity and email, built from neither of them. A signup of an email
  that is not on the roster never returns that response.
\<close>

theorem already_signed_up_message:
  assumes "acts activity_name = Some activity"
    and "email \<in> set (participants activity)"
    and "acts' activity_name' = Some activity'"
    and "email' \<notin> set (participants activity')"
  shows "fst (signup_for_activity acts activity_name email)
           = Inr \<lparr>message = ''Student already signed up for this activity''\<rparr>
       \<and> fst (signup_for_activity acts' activity_name' email')
           \<noteq> Inr \<lparr>message = ''Student already signed up for this activity''\<rparr>"
  using assms by (simp add: signup_for_activity_def)

theorem already_signed_up_message_witness:
  "activities ''Chess Club'' = Some
     \<lparr>description = ''Learn strategies and compete in chess tournaments'',
      schedule = ''Fridays, 3:30 PM - 5:00 PM'',
      max_participants = 12,
      participants = [''michael@mergington.edu'', ''daniel@mergington.edu'']\<rparr>
   \<and> ''michael@mergington.edu''
       \<in> set [''michael@mergington.edu'', ''daniel@mergington.edu'']
   \<and> ''new@x.edu'' \<notin> set [''michael@mergington.edu'', ''daniel@mergington.edu'']
   \<and> fst (signup_for_activity activities ''Chess Club'' ''michael@mergington.edu'')
       = Inr \<lparr>message = ''Student already signed up for this activity''\<rparr>
   \<and> fst (signup_for_activity activities ''Chess Club'' ''new@x.edu'')
       \<noteq> Inr \<lparr>message = ''Student already signed up for this activity''\<rparr>"
  using already_signed_up_message
      [of activities "''Chess Club''" _ "''michael@mergington.edu''"
          activities "''Chess Club''" _ "''new@x.edu''",
       OF activities_Chess_Club _ activities_Chess_Club]
    activities_Chess_Club
  by simp

end
